theory Spec2Isabelle
  imports Complex_Main "HOL-Library.Word"
begin

section \<open>Capture-file ingestion and analysis: a shallow embedding\<close>

text \<open>
  The definitions below follow the Python sources of the capture-file pipeline
  (\<^verbatim>\<open>formats/capturefile.py\<close>, \<^verbatim>\<open>formats/presentmon.py\<close>, \<^verbatim>\<open>formats/frameview.py\<close>,
  \<^verbatim>\<open>formats/ocat.py\<close>, \<^verbatim>\<open>formats/integrity.py\<close>, \<^verbatim>\<open>core/fileloader.py\<close>,
  \<^verbatim>\<open>gui/plotobject.py\<close>).

  Conventions.
  \<^item> Exceptions are values of \<open>py_error\<close>; a function that can raise returns
    \<open>py_error + 'a\<close>, and a \<^verbatim>\<open>try/except\<close> of the source is a case split on that sum.
  \<^item> Numbers are exact rationals. The sources compute with IEEE floats (NumPy, pandas);
    where the code depends on the special values of that arithmetic (not-a-number at the
    edges of a rolling window, division by zero giving an infinity) they are constructors
    of their own, and rounding is not modelled.
  \<^item> Library calls (pandas, NumPy, hashlib) are modelled by their documented behaviour;
    tables and functions of the program that are configuration or lie outside the modelled
    files are parameters.
\<close>

datatype py_error =
    IndexError | KeyError | AttributeError | ValueError | ZeroDivisionError
  | UnboundLocalError | DtypeWarning | FileIntegrityError | OtherError

subsection \<open>File hash (\<^verbatim>\<open>CaptureFile.calculate_file_hash\<close>)\<close>

type_synonym bytes = "8 word list"

text \<open>
  A \<^verbatim>\<open>hashlib\<close> object: \<^verbatim>\<open>update\<close> absorbs a block, \<^verbatim>\<open>hexdigest\<close> returns the digest
  of everything absorbed so far. The digest function itself (SHA3-256, from the standard
  library) is the parameter \<open>sha\<close>.
\<close>

record hash_object =
  absorbed :: bytes

definition new_hash :: hash_object where
  "new_hash = \<lparr>absorbed = []\<rparr>"

definition hash_update :: "hash_object \<Rightarrow> bytes \<Rightarrow> hash_object" where
  "hash_update h block = h\<lparr>absorbed := absorbed h @ block\<rparr>"

definition hexdigest :: "(bytes \<Rightarrow> string) \<Rightarrow> hash_object \<Rightarrow> string" where
  "hexdigest sha h = sha (absorbed h)"

text \<open>\<^verbatim>\<open>for block in file_blocks: algorithm.update(block)\<close>\<close>

fun update_all :: "hash_object \<Rightarrow> bytes list \<Rightarrow> hash_object" where
  "update_all h [] = h"
| "update_all h (block # blocks) = update_all (hash_update h block) blocks"

definition calculate_file_hash :: "(bytes \<Rightarrow> string) \<Rightarrow> bytes list \<Rightarrow> string" where
  "calculate_file_hash sha file_blocks = hexdigest sha (update_all new_hash file_blocks)"

definition HASH_BLOCK_SIZE :: nat where
  "HASH_BLOCK_SIZE = 65536"

text \<open>
  \<^verbatim>\<open>iterable_file_blocks\<close>: read a block, and while it is not empty yield it and read the
  next one. \<open>content\<close> is what is left of the file at the read position.
\<close>

function read_blocks :: "nat \<Rightarrow> bytes \<Rightarrow> bytes list" where
  "read_blocks n content =
     (if length (take n content) > 0
      then take n content # read_blocks n (drop n content)
      else [])"
  by pat_completeness auto
termination
  by (relation "measure (\<lambda>(n, content). length content)") auto

declare read_blocks.simps [simp del]

definition iterable_file_blocks :: "bytes \<Rightarrow> bytes list" where
  "iterable_file_blocks content = read_blocks HASH_BLOCK_SIZE content"

subsection \<open>Column downcasting (\<^verbatim>\<open>CaptureFile.return_optimal_dtype\<close>)\<close>

datatype dtype =
    Category | UInt8 | UInt16 | UInt32 | UInt64
  | Int8 | Int16 | Int32 | Int64 | Float32 | Float64

text \<open>A column as NumPy sees it: of dtype \<^verbatim>\<open>object\<close>, or numeric.\<close>

datatype np_column = ObjectCol "string list" | NumericCol "rat list"

definition np_min :: "rat list \<Rightarrow> rat" where
  "np_min xs = fold min (tl xs) (hd xs)"

definition np_max :: "rat list \<Rightarrow> rat" where
  "np_max xs = fold max (tl xs) (hd xs)"

text \<open>\<^verbatim>\<open>x.astype(int64)\<close> truncates towards zero.\<close>

definition astype_int :: "rat \<Rightarrow> int" where
  "astype_int x = (if 0 \<le> x then \<lfloor>x\<rfloor> else \<lceil>x\<rceil>)"

text \<open>
  The branch for a non-negative minimum has no \<^verbatim>\<open>else\<close>: with a maximum of
  \<open>2\<^sup>3\<^sup>2\<close> or more \<^verbatim>\<open>_type\<close> is never bound and \<^verbatim>\<open>return _type\<close> raises. The signed
  branch ends in \<^verbatim>\<open>return None\<close>.
\<close>

definition return_optimal_dtype :: "np_column \<Rightarrow> py_error + dtype option" where
  "return_optimal_dtype col =
     (case col of
        ObjectCol _ \<Rightarrow> Inr (Some Category)
      | NumericCol [] \<Rightarrow> Inl IndexError
      | NumericCol (first # rest) \<Rightarrow>
          (let mn = np_min (first # rest); mx = np_max (first # rest) in
           if first - of_int (astype_int first) = 0 then
             (if mn \<ge> 0 then
                (if mx < 256 then Inr (Some UInt8)
                 else if mx < 65536 then Inr (Some UInt16)
                 else if mx < 4294967296 then Inr (Some UInt32)
                 else Inl UnboundLocalError)
              else if mn > -129 \<or> mx < 128 then Inr (Some Int8)
              else if mn > -32769 \<or> mx < 32768 then Inr (Some Int16)
              else if mn > -2147483649 \<or> mx < 2147483648 then Inr (Some Int32)
              else Inr None)
           else Inr (Some Float32)))"

text \<open>
  The values an integer dtype can hold. A value is covered when, cast to an integer as
  \<^verbatim>\<open>astype\<close> does, it lies in the range; for an integral value that is the value itself.
\<close>

fun dtype_range :: "dtype \<Rightarrow> (int \<times> int) option" where
  "dtype_range UInt8 = Some (0, 255)"
| "dtype_range UInt16 = Some (0, 65535)"
| "dtype_range UInt32 = Some (0, 4294967295)"
| "dtype_range UInt64 = Some (0, 18446744073709551615)"
| "dtype_range Int8 = Some (-128, 127)"
| "dtype_range Int16 = Some (-32768, 32767)"
| "dtype_range Int32 = Some (-2147483648, 2147483647)"
| "dtype_range Int64 = Some (-9223372036854775808, 9223372036854775807)"
| "dtype_range _ = None"

definition covers :: "dtype \<Rightarrow> rat \<Rightarrow> bool" where
  "covers t x = (case dtype_range t of
                   None \<Rightarrow> False
                 | Some (lo, hi) \<Rightarrow> lo \<le> astype_int x \<and> astype_int x \<le> hi)"


subsection \<open>Format detection (\<^verbatim>\<open>FileLoader.infer_format\<close>)\<close>




text \<open>\<^verbatim>\<open>len(header_set.intersection(match_set)) / len(match_set)\<close>\<close>

definition score :: "string set \<Rightarrow> string list \<Rightarrow> rat" where
  "score header_set match_set =
     of_nat (card (header_set \<inter> set match_set)) / of_nat (card (set match_set))"













subsection \<open>Integrity (\<^verbatim>\<open>formats/integrity.py\<close>)\<close>

datatype Integrity = Initialized | Pending | Ideal | Dirty | Partial | Mangled | Invalid

fun integrity_id :: "Integrity \<Rightarrow> int" where
  "integrity_id Initialized = -2"
| "integrity_id Pending = -1"
| "integrity_id Ideal = 0"
| "integrity_id Dirty = 1"
| "integrity_id Partial = 2"
| "integrity_id Mangled = 3"
| "integrity_id Invalid = 99"

definition valid :: "Integrity \<Rightarrow> bool" where
  "valid i = (0 \<le> integrity_id i \<and> integrity_id i < 99)"

subsection \<open>Capture files (\<^verbatim>\<open>formats/capturefile.py\<close>)\<close>

text \<open>
  A table cell is a number or a string. What a column access returns: \<^verbatim>\<open>None\<close>, a scalar,
  a one-dimensional series, or a two-dimensional frame (a list of columns). A data frame
  is the list of its named columns, in order; names can repeat; its rows carry the default
  index \<open>0, 1, 2, \<dots>\<close>.
\<close>

datatype cell = Num rat | Str string

datatype pyval = PNone | Scalar cell | Series "cell list" | Frame "cell list list"

type_synonym dataframe = "(string \<times> cell list) list"

text \<open>
  The fields of \<^verbatim>\<open>CaptureFile\<close> the modelled methods read or write. \<^verbatim>\<open>__init__\<close> leaves
  \<^verbatim>\<open>zero_col\<close> at \<^verbatim>\<open>None\<close>, \<^verbatim>\<open>offset\<close> and \<^verbatim>\<open>height\<close> at 0, \<^verbatim>\<open>fallbacks_in_use\<close> empty
  and \<^verbatim>\<open>integrity\<close> at \<^verbatim>\<open>Initialized\<close>.
\<close>

record capture_file =
  app_name :: string
  version :: string
  headers :: "string list"
  height :: int
  offset :: int
  integrity :: Integrity
  data :: dataframe
  zero_col :: pyval
  fallbacks_in_use :: "(string \<times> string) list"






text \<open>
  \<^verbatim>\<open>data.loc[offset : height - 1, column_name]\<close>: the rows whose label lies between the
  two bounds, both included, of the columns of that name: a series for one column, a frame
  for several, \<^verbatim>\<open>KeyError\<close> for none.
\<close>

definition columns_named :: "dataframe \<Rightarrow> string \<Rightarrow> cell list list" where
  "columns_named df column_name = map snd (filter (\<lambda>(n, c). n = column_name) df)"






subsection \<open>Polling rate (\<^verbatim>\<open>CaptureFile.infer_polling_rate\<close>)\<close>

text \<open>
  A float as the heuristics see it: a finite value, or one of the special values.
\<close>

datatype np_float = Fin rat | NaN | PosInf | NegInf

text \<open>
  \<^verbatim>\<open>positive_time_deltas\<close>. The argument is what \<^verbatim>\<open>to_datetime\<close> made of the time column:
  an exception, or the timestamps in nanoseconds. \<open>as_float\<close> is the conversion
  \<^verbatim>\<open>.values.astype(float)\<close>.
\<close>

definition time_deltas :: "(int \<Rightarrow> rat) \<Rightarrow> int list \<Rightarrow> rat list" where
  "time_deltas as_float datetimes =
     map (\<lambda>(a, b). as_float b - as_float a) (zip (butlast datetimes) (tl datetimes))"

definition positive_time_deltas :: "(int \<Rightarrow> rat) \<Rightarrow> py_error + int list \<Rightarrow> py_error + rat list" where
  "positive_time_deltas as_float to_datetime =
     (case to_datetime of
        Inl e \<Rightarrow> Inl e
      | Inr datetimes \<Rightarrow> Inr (filter (\<lambda>d. d > 0) (time_deltas as_float datetimes)))"

text \<open>
  \<^verbatim>\<open>numpy.median\<close> (not-a-number on an empty array) and the square of \<^verbatim>\<open>numpy.std\<close>.
\<close>

definition np_median :: "rat list \<Rightarrow> np_float" where
  "np_median xs =
     (let s = sort xs; n = length xs in
      if n = 0 then NaN
      else if odd n then Fin (s ! (n div 2))
      else Fin ((s ! (n div 2 - 1) + s ! (n div 2)) / 2))"

definition np_mean :: "rat list \<Rightarrow> rat" where
  "np_mean xs = sum_list xs / of_nat (length xs)"

definition np_var :: "rat list \<Rightarrow> rat" where
  "np_var xs = np_mean (map (\<lambda>x. (x - np_mean xs)\<^sup>2) xs)"

text \<open>
  \<^verbatim>\<open>filter_time_deltas\<close>. The standard deviation \<open>\<sigma>\<close> is positive exactly when the variance
  is, and \<open>median + 3\<sigma> > x\<close> exactly when \<open>x - median \<le> 0\<close> or \<open>(x - median)\<^sup>2 < 9\<sigma>\<^sup>2\<close>.
\<close>

definition filter_time_deltas :: "rat list \<Rightarrow> np_float" where
  "filter_time_deltas positive_deltas =
     (let polling_rates = map (\<lambda>d. d / 1000000000) positive_deltas in
      case np_median polling_rates of
        Fin median_rate \<Rightarrow>
          if np_var polling_rates > 0
          then np_median (filter (\<lambda>x. x - median_rate \<le> 0
                                      \<or> (x - median_rate)\<^sup>2 < 9 * np_var polling_rates)
                                 polling_rates)
          else Fin median_rate
      | other \<Rightarrow> other)"

definition infer_polling_rate ::
  "(int \<Rightarrow> rat) \<Rightarrow> 'a capture_file_scheme \<Rightarrow> py_error + int list
     \<Rightarrow> np_float \<times> 'a capture_file_scheme" where
  "infer_polling_rate as_float f to_datetime =
     (case positive_time_deltas as_float to_datetime of
        Inl e \<Rightarrow> (Fin 1, f)
      | Inr positive_deltas \<Rightarrow>
          if length positive_deltas = 0 \<or> np_max positive_deltas = 0
          then (Fin 1, if integrity f = Ideal then f\<lparr>integrity := Dirty\<rparr> else f)
          else (filter_time_deltas positive_deltas, f))"

text \<open>
  A small file, fresh from its constructor (the zero column not yet sized), and an alias
  table for it, for evaluation.
\<close>

definition example_file :: capture_file where
  "example_file = \<lparr>app_name = ''Afterburner'', version = ''4.6'', headers = [''Time'', ''Frametime''],
     height = 3, offset = 0, integrity = Ideal,
     data = [(''Time'', [Num 0, Num 1, Num 2]), (''Frametime'', [Num 16, Num 17, Num 16])],
     zero_col = PNone, fallbacks_in_use = []\<rparr>"


subsection \<open>Inspection and integrity of PresentMon captures (\<^verbatim>\<open>formats/presentmon.py\<close>)\<close>

record InspectionItem =
  passed :: bool
  violations :: int
  description :: string

definition default_result :: InspectionItem where
  "default_result = \<lparr>passed = False, violations = -1, description = ''Field inspection failed''\<rparr>"

text \<open>
  The inspection report is a dictionary from check name to \<^verbatim>\<open>InspectionItem\<close>; the
  versioned reports also hold separator entries whose value is a string. A dictionary is
  the list of its entries in insertion order, with distinct keys.
\<close>

datatype inspection_value = Item InspectionItem | Text string

type_synonym inspection = "(string \<times> inspection_value) list"

text \<open>\<^verbatim>\<open>a | b\<close> on dictionaries: the keys of \<open>a\<close>, then the new keys of \<open>b\<close>; \<open>b\<close>'s values win.\<close>

definition dict_or :: "('k \<times> 'v) list \<Rightarrow> ('k \<times> 'v) list \<Rightarrow> ('k \<times> 'v) list" where
  "dict_or a b =
     map (\<lambda>(k, v). (k, case map_of b k of Some v' \<Rightarrow> v' | None \<Rightarrow> v)) a
     @ filter (\<lambda>(k, v). k \<notin> fst ` set a) b"

record presentmon = capture_file +
  inspection :: inspection
  integrity_hash :: int

text \<open>
  \<^verbatim>\<open>passed_inspection\<close>: \<^verbatim>\<open>all(item.passed for item in self.inspection.values()
  if isinstance(item, InspectionItem))\<close>.
\<close>

definition passed_inspection :: "'a presentmon_scheme \<Rightarrow> bool" where
  "passed_inspection f =
     list_all (\<lambda>(k, v). case v of Item i \<Rightarrow> passed i | Text s \<Rightarrow> True) (inspection f)"

text \<open>
  The class attribute \<^verbatim>\<open>MAJOR_INSPECTION_ITEMS\<close>: version to the names of the major checks.
  \<^verbatim>\<open>[self.inspection.get(field).passed for field in self.MAJOR_INSPECTION_ITEMS[self.version]]\<close>
  raises for a version without a list, for a name that is not in the report
  (\<^verbatim>\<open>None.passed\<close>) and for a name whose entry is a string.
\<close>

type_synonym major_table = "(string \<times> string list) list"

fun passed_of :: "inspection \<Rightarrow> string list \<Rightarrow> py_error + bool list" where
  "passed_of insp [] = Inr []"
| "passed_of insp (name # names) =
     (case map_of insp name of
        Some (Item i) \<Rightarrow>
          (case passed_of insp names of Inl e \<Rightarrow> Inl e | Inr ps \<Rightarrow> Inr (passed i # ps))
      | _ \<Rightarrow> Inl AttributeError)"

definition major_items :: "major_table \<Rightarrow> 'a presentmon_scheme \<Rightarrow> py_error + bool list" where
  "major_items MAJOR_INSPECTION_ITEMS f =
     (case map_of MAJOR_INSPECTION_ITEMS (version f) of
        None \<Rightarrow> Inl KeyError
      | Some names \<Rightarrow> passed_of (inspection f) names)"

text \<open>\<^verbatim>\<open>update_integrity_by_inspection\<close>; an exception in the body is logged.\<close>

definition update_integrity_by_inspection ::
  "major_table \<Rightarrow> bool \<Rightarrow> 'a presentmon_scheme \<Rightarrow> 'a presentmon_scheme" where
  "update_integrity_by_inspection MAJOR_INSPECTION_ITEMS recheck f =
     (if \<not> (integrity f = Pending \<or> recheck) then f
      else if passed_inspection f then f\<lparr>integrity := Ideal\<rparr>
      else case major_items MAJOR_INSPECTION_ITEMS f of
             Inl e \<Rightarrow> f
           | Inr items \<Rightarrow> f\<lparr>integrity := (if False \<in> set items then Mangled else Dirty)\<rparr>)"

text \<open>
  The report of \<^verbatim>\<open>PresentMon.inspect_capture\<close> always has the same thirteen keys (the
  \<^verbatim>\<open>finally\<close> clause builds it from the items computed so far, the others left at
  \<^verbatim>\<open>default_result\<close>); \<open>items\<close> gives the item of each key. Likewise the versioned reports
  of \<^verbatim>\<open>FrameView.second_gen_inspection\<close> and \<^verbatim>\<open>OCAT.ocat_inspection\<close>.
\<close>

definition presentmon_keys :: "string list" where
  "presentmon_keys =
     [''Application Consistency'', ''Swapchain Address Consistency'', ''Runtime Consistency'',
      ''Runtime Validity'', ''Present Flag Consistency'', ''Sync Policy Consistency'',
      ''No Active Sync Policy'', ''Tearing is Possible'', ''No Dropped Frames'',
      ''Present Mode Consistency'', ''Hardware-Based Present Mode'', ''Display Change Validity'',
      ''Render Queue Depth'']"

definition report :: "string list \<Rightarrow> (string \<Rightarrow> InspectionItem) \<Rightarrow> inspection" where
  "report keys items = map (\<lambda>k. (k, Item (items k))) keys"

definition second_gen_keys :: "string list" where
  "second_gen_keys =
     [''Valid System Latency'', ''GPU Consistency'', ''CPU Consistency'',
      ''Resolution Consistency'', ''Resolution Validity'', ''Process ID Consistency'']"

definition second_gen_inspection :: "(string \<Rightarrow> InspectionItem) \<Rightarrow> inspection" where
  "second_gen_inspection items = report second_gen_keys items @ [(''section_1'', Text ''-----'')]"

definition ocat_keys :: "string list" where
  "ocat_keys = [''Resolution Consistency'', ''Resolution Validity'', ''Process ID Consistency'']"

definition ocat_inspection :: "(string \<Rightarrow> InspectionItem) \<Rightarrow> inspection" where
  "ocat_inspection items = report ocat_keys items @ [(''section_1'', Text ''-----'')]"

definition SECOND_GENERATION :: "string list" where
  "SECOND_GENERATION = [''1.1'', ''1.2'', ''1.4'']"

text \<open>
  The reports of \<^verbatim>\<open>FrameView.inspect_capture\<close> and \<^verbatim>\<open>OCAT.inspect_capture\<close>
  (\<^verbatim>\<open>versioned_inspection | inspection_results\<close>).
\<close>

definition frameview_report ::
  "string \<Rightarrow> (string \<Rightarrow> InspectionItem) \<Rightarrow> (string \<Rightarrow> InspectionItem) \<Rightarrow> inspection" where
  "frameview_report ver basic versioned =
     (if ver \<in> set SECOND_GENERATION
      then dict_or (second_gen_inspection versioned) (report presentmon_keys basic)
      else report presentmon_keys basic)"

definition ocat_report ::
  "(string \<Rightarrow> InspectionItem) \<Rightarrow> (string \<Rightarrow> InspectionItem) \<Rightarrow> inspection" where
  "ocat_report basic versioned = dict_or (ocat_inspection versioned) (report presentmon_keys basic)"

text \<open>\<^verbatim>\<open>FrameView.MAJOR_INSPECTION_ITEMS\<close> and \<^verbatim>\<open>OCAT.MAJOR_INSPECTION_ITEMS\<close>.\<close>

definition frameview_major_10 :: "string list" where
  "frameview_major_10 =
     [''Application Consistency'', ''Swapchain Address Consistency'', ''Runtime Consistency'',
      ''No Dropped Frames'', ''Present Mode Consistency'', ''Hardware-Based Present Mode'']"

definition frameview_major_11 :: "string list" where
  "frameview_major_11 =
     frameview_major_10 @
     [''GPU Consistency'', ''CPU Consistency'', ''Resolution Consistency'',
      ''Resolution Validity'', ''Process ID Consistency'']"

definition frameview_major :: major_table where
  "frameview_major =
     [(''1.1'', frameview_major_11), (''1.0'', frameview_major_10),
      (''1.4'', frameview_major_11), (''1.2'', frameview_major_11)]"

definition ocat_major :: major_table where
  "ocat_major =
     [(''1.6.1'',
       [''Resolution Consistency'', ''Resolution Validity'', ''Application Consistency'',
        ''Swapchain Address Consistency'', ''Runtime Consistency'', ''Process ID Consistency'',
        ''No Dropped Frames'', ''Present Mode Consistency'', ''Hardware-Based Present Mode''])]"

text \<open>
  The precondition under which the body of \<^verbatim>\<open>update_integrity_by_inspection\<close> cannot
  raise: the version has a list of major checks and each of them is an item of the report.
\<close>

definition majors_inspected :: "major_table \<Rightarrow> string \<Rightarrow> inspection \<Rightarrow> bool" where
  "majors_inspected MAJOR_INSPECTION_ITEMS ver insp =
     (case map_of MAJOR_INSPECTION_ITEMS ver of
        None \<Rightarrow> False
      | Some names \<Rightarrow>
          list_all (\<lambda>name. case map_of insp name of Some (Item i) \<Rightarrow> True | _ \<Rightarrow> False) names)"

text \<open>Every item of the report passed; every major item of the report passed.\<close>

definition all_passed :: "inspection \<Rightarrow> bool" where
  "all_passed insp = (\<forall>k i. (k, Item i) \<in> set insp \<longrightarrow> passed i)"

definition majors_passed :: "major_table \<Rightarrow> string \<Rightarrow> inspection \<Rightarrow> bool" where
  "majors_passed MAJOR_INSPECTION_ITEMS ver insp =
     (\<forall>names name i. map_of MAJOR_INSPECTION_ITEMS ver = Some names \<longrightarrow> name \<in> set names
        \<longrightarrow> map_of insp name = Some (Item i) \<longrightarrow> passed i)"

text \<open>A FrameView 1.0 capture whose only failed check is a minor one.\<close>

definition fv_file :: presentmon where
  "fv_file = \<lparr>app_name = ''FrameView'', version = ''1.0'', headers = [], height = 0, offset = 0,
     integrity = Pending, data = [], zero_col = PNone, fallbacks_in_use = [],
     inspection = frameview_report ''1.0''
        (\<lambda>k. \<lparr>passed = (k \<noteq> ''Tearing is Possible''), violations = 0, description = []\<rparr>)
        (\<lambda>k. default_result),
     integrity_hash = -1\<rparr>"

subsection \<open>Reading a PresentMon capture (\<^verbatim>\<open>PresentMon.__init__\<close>, \<^verbatim>\<open>read_log\<close>, \<^verbatim>\<open>parse_file\<close>)\<close>

text \<open>
  What the file system and pandas answer: \<open>first_read\<close> is the outcome of the first
  \<^verbatim>\<open>read_csv\<close> (of \<^verbatim>\<open>read_ocat_log\<close> for OCAT), \<open>reread\<close> the outcome of the reads of
  \<^verbatim>\<open>process_mixed_dtypes\<close>.
\<close>

record read_io =
  first_read :: "py_error + dataframe"
  reread :: "py_error + dataframe"

text \<open>\<^verbatim>\<open>any(data["Dropped"].isin(["Error"]))\<close>; \<^verbatim>\<open>KeyError\<close> without such a column.\<close>

definition dropped_has_error :: "dataframe \<Rightarrow> py_error + bool" where
  "dropped_has_error df =
     (case columns_named df ''Dropped'' of
        [] \<Rightarrow> Inl KeyError
      | cs \<Rightarrow> Inr (\<exists>c \<in> set cs. Str ''Error'' \<in> set c))"

text \<open>
  \<^verbatim>\<open>process_mixed_dtypes\<close> sets \<^verbatim>\<open>Mangled\<close>, then rereads the file; when the reread raises
  it sets \<^verbatim>\<open>Invalid\<close>, and its \<^verbatim>\<open>return data\<close> raises for the unbound name.
\<close>

definition process_mixed_dtypes ::
  "'a presentmon_scheme \<Rightarrow> read_io \<Rightarrow> 'a presentmon_scheme \<times> (py_error + dataframe)" where
  "process_mixed_dtypes f io =
     (case reread io of
        Inl e \<Rightarrow> (f\<lparr>integrity := Invalid\<rparr>, Inl UnboundLocalError)
      | Inr d \<Rightarrow> (f\<lparr>integrity := Mangled\<rparr>, Inr d))"

text \<open>
  \<^verbatim>\<open>read_log\<close>. Whatever happens in the body, \<^verbatim>\<open>finally: return
  self.compress_dataframe(data)\<close> ends the call: the \<^verbatim>\<open>FileIntegrityError\<close> raised in the
  \<^verbatim>\<open>KeyError\<close> handler is discarded by that \<^verbatim>\<open>return\<close>, and \<^verbatim>\<open>data\<close> is whatever the
  local held last (the empty frame at first). \<open>compress\<close> is \<^verbatim>\<open>compress_dataframe\<close>, which
  can raise.
\<close>

definition read_log ::
  "(dataframe \<Rightarrow> py_error + dataframe) \<Rightarrow> 'a presentmon_scheme \<Rightarrow> read_io
     \<Rightarrow> 'a presentmon_scheme \<times> (py_error + dataframe)" where
  "read_log compress f io =
     (case first_read io of
        Inl DtypeWarning \<Rightarrow>
          (case process_mixed_dtypes f io of
             (f', Inr d) \<Rightarrow> (f', compress d)
           | (f', Inl e) \<Rightarrow> (f', compress []))
      | Inl e \<Rightarrow> (f\<lparr>integrity := Invalid\<rparr>, compress [])
      | Inr d \<Rightarrow>
          (case dropped_has_error d of
             Inl e \<Rightarrow> (f\<lparr>integrity := Invalid\<rparr>, compress d)
           | Inr True \<Rightarrow>
               (case process_mixed_dtypes f io of
                  (f', Inr d') \<Rightarrow> (f', compress d')
                | (f', Inl e) \<Rightarrow> (f', compress d))
           | Inr False \<Rightarrow> (f, compress d)))"

definition nrows :: "dataframe \<Rightarrow> int" where
  "nrows df = (case df of [] \<Rightarrow> 0 | (n, c) # rest \<Rightarrow> int (length c))"

text \<open>
  \<^verbatim>\<open>parse_file\<close> returns \<^verbatim>\<open>(file_data, headers, height)\<close>; when \<^verbatim>\<open>read_log\<close> left the
  integrity at \<^verbatim>\<open>Invalid\<close> it raises \<^verbatim>\<open>FileIntegrityError\<close>, catches and logs it, and
  returns the headers and the height it started with.
\<close>

definition parse_file ::
  "(dataframe \<Rightarrow> py_error + dataframe) \<Rightarrow> 'a presentmon_scheme \<Rightarrow> read_io
     \<Rightarrow> 'a presentmon_scheme \<times> dataframe \<times> string list \<times> int" where
  "parse_file compress f io =
     (case read_log compress f io of
        (f', Inl e) \<Rightarrow> (f', [], [], 0)
      | (f', Inr file_data) \<Rightarrow>
          if integrity f' = Invalid then (f', file_data, [], 0)
          else (f', file_data, map fst file_data, nrows file_data))"

text \<open>
  \<^verbatim>\<open>hash((self.height, self.offset))\<close>: \<open>hashf\<close> is the hash of the pair; CPython never
  returns \<open>-1\<close> from \<^verbatim>\<open>hash\<close> (it returns \<open>-2\<close> instead).
\<close>

definition py_hash :: "('a \<Rightarrow> int) \<Rightarrow> 'a \<Rightarrow> int" where
  "py_hash hashf x = (if hashf x = -1 then -2 else hashf x)"

text \<open>
  \<^verbatim>\<open>evaluate_integrity\<close>. \<^verbatim>\<open>inspect_capture\<close> and \<^verbatim>\<open>define_properties\<close> are the methods of
  the subclass (FrameView, OCAT), parameters here; an exception of either is caught and
  logged, and ends the evaluation.
\<close>

definition evaluate_integrity ::
  "(int \<times> int \<Rightarrow> int)
   \<Rightarrow> ('a presentmon_scheme \<Rightarrow> py_error + inspection \<times> 'a presentmon_scheme)
   \<Rightarrow> ('a presentmon_scheme \<Rightarrow> py_error + 'a presentmon_scheme)
   \<Rightarrow> major_table \<Rightarrow> 'a presentmon_scheme \<Rightarrow> 'a presentmon_scheme" where
  "evaluate_integrity hashf inspect_capture define_properties MAJOR_INSPECTION_ITEMS f =
     (let current_hash = py_hash hashf (height f, offset f) in
      if current_hash = integrity_hash f then f
      else
        let f1 = f\<lparr>integrity_hash := current_hash\<rparr> in
        case inspect_capture f1 of
          Inl e \<Rightarrow> f1
        | Inr (results, f2) \<Rightarrow>
            (let f3 = f2\<lparr>inspection := results\<rparr> in
             case define_properties f3 of
               Inl e \<Rightarrow> f3
             | Inr f4 \<Rightarrow> update_integrity_by_inspection MAJOR_INSPECTION_ITEMS True f4))"

text \<open>
  \<^verbatim>\<open>PresentMon.__init__\<close>, after the base constructor has made \<open>f\<close>.
\<close>

definition presentmon_init ::
  "(int \<times> int \<Rightarrow> int)
   \<Rightarrow> ('a presentmon_scheme \<Rightarrow> py_error + inspection \<times> 'a presentmon_scheme)
   \<Rightarrow> ('a presentmon_scheme \<Rightarrow> py_error + 'a presentmon_scheme)
   \<Rightarrow> major_table \<Rightarrow> (dataframe \<Rightarrow> py_error + dataframe)
   \<Rightarrow> 'a presentmon_scheme \<Rightarrow> read_io \<Rightarrow> 'a presentmon_scheme" where
  "presentmon_init hashf inspect_capture define_properties MAJOR_INSPECTION_ITEMS compress f io =
     (let f1 = f\<lparr>integrity := Pending\<rparr>;
          f2 = f1\<lparr>integrity_hash := -1\<rparr>
      in case parse_file compress f2 io of
           (f3, file_data, hdrs, h) \<Rightarrow>
             evaluate_integrity hashf inspect_capture define_properties MAJOR_INSPECTION_ITEMS
               (f3\<lparr>data := file_data, headers := hdrs, height := h\<rparr>))"

text \<open>
  A FrameView 1.0 capture without a \<^verbatim>\<open>Dropped\<close> column, as the base constructor leaves it,
  and what pandas reads from it. After the failed parse the file has no headers and its
  zero column is \<^verbatim>\<open>None\<close>, so every \<^verbatim>\<open>self.column(...)\<close> of the inspection is \<^verbatim>\<open>None\<close>:
  the six consistency checks fail with \<open>frames() = 0\<close> violations (\<^verbatim>\<open>None.mode()\<close> raises
  inside \<^verbatim>\<open>inspect_consistency\<close>), \<^verbatim>\<open>None.unique()\<close> then ends the battery and the other
  seven items stay at \<^verbatim>\<open>default_result\<close>. With \<^verbatim>\<open>DropNAColumns\<close> set (the default)
  \<^verbatim>\<open>FrameView.define_properties\<close> only looks names up in the empty header list and
  does not raise.
\<close>

definition no_dropped_file :: presentmon where
  "no_dropped_file =
     \<lparr>app_name = ''FrameView'', version = ''1.0'',
      headers = [''Application'', ''TimeInSeconds'', ''MsBetweenPresents''],
      height = 0, offset = 0, integrity = Initialized, data = [], zero_col = PNone,
      fallbacks_in_use = [], inspection = [], integrity_hash = 0\<rparr>"

definition no_dropped_io :: read_io where
  "no_dropped_io =
     \<lparr>first_read = Inr [(''Application'', [Str ''game.exe'', Str ''game.exe'']),
                        (''TimeInSeconds'', [Num 0, Num (1/60)]),
                        (''MsBetweenPresents'', [Num 16, Num 17])],
      reread = Inl OtherError\<rparr>"

definition headerless_items :: "string \<Rightarrow> InspectionItem" where
  "headerless_items k =
     (if k = ''Application Consistency'' then
        \<lparr>passed = False, violations = 0,
         description = ''Application name (Unknown) was not consistent across all frames''\<rparr>
      else if k = ''Swapchain Address Consistency'' then
        \<lparr>passed = False, violations = 0,
         description = ''Swapchain address (Unknown) was not consistent across all frames''\<rparr>
      else if k = ''Runtime Consistency'' then
        \<lparr>passed = False, violations = 0,
         description = ''Graphics runtime (Unknown) was not consistent across all frames''\<rparr>
      else if k = ''Present Flag Consistency'' then
        \<lparr>passed = False, violations = 0,
         description = ''Present flags were not consistent across all frames''\<rparr>
      else if k = ''Sync Policy Consistency'' then
        \<lparr>passed = False, violations = 0,
         description = ''Vertical synchronization policy changed during the capture''\<rparr>
      else if k = ''Present Mode Consistency'' then
        \<lparr>passed = False, violations = 0,
         description = ''Flip model (Unknown) was not consistent across all frames''\<rparr>
      else default_result)"

definition headerless_inspect_capture ::
  "presentmon \<Rightarrow> py_error + inspection \<times> presentmon" where
  "headerless_inspect_capture f =
     Inr (frameview_report (version f) headerless_items (\<lambda>k. default_result), f)"

subsection \<open>Statistics cache (\<^verbatim>\<open>gui/plotobject.py\<close>)\<close>

text \<open>
  A cell of the statistics table, and a value that can stand in the tuple a section
  hashes (\<^verbatim>\<open>None\<close>, a number, a truth value).
\<close>

datatype stat = NA | StatNum rat | StatStr string

datatype criterion = CNone | CNum rat | CBool bool

text \<open>
  The state the statistics methods work on: the file (\<^verbatim>\<open>self.file\<close>), the table (a cell per header, a
  table not yet filled being all \<^verbatim>\<open>"N/A"\<close>), the per-object \<^verbatim>\<open>_hashes\<close> and the class-wide
  \<^verbatim>\<open>_cache_hits\<close>, which maps a section to \<^verbatim>\<open>[hits, total]\<close>.
\<close>

record plot_object =
  the_file :: capture_file
  stats :: "string \<Rightarrow> stat"
  hashes :: "(string \<times> int) list"
  cache_hits :: "(string \<times> nat \<times> nat) list"

definition sections :: "string list" where
  "sections = [''Time'', ''Display'', ''Performance'', ''Percentiles'', ''Relative Percentiles'',
               ''Stutter'', ''Hardware'']"

text \<open>\<^verbatim>\<open>d[k] = v\<close> on a dictionary.\<close>

fun dict_set :: "('k \<times> 'v) list \<Rightarrow> 'k \<Rightarrow> 'v \<Rightarrow> ('k \<times> 'v) list" where
  "dict_set [] k v = [(k, v)]"
| "dict_set ((k', v') # d) k v = (if k' = k then (k, v) # d else (k', v') # dict_set d k v)"

text \<open>
  \<^verbatim>\<open>use_cached_stats\<close>. \<open>hashf\<close> is \<^verbatim>\<open>hash\<close> on the tuple \<^verbatim>\<open>(offset, height, *other_criteria)\<close>.
  A section missing from \<^verbatim>\<open>_cache_hits\<close> raises at the first statement; the handler
  returns \<^verbatim>\<open>True\<close>.
\<close>

definition use_cached_stats ::
  "(int \<times> int \<times> criterion list \<Rightarrow> int) \<Rightarrow> string \<Rightarrow> criterion list \<Rightarrow> plot_object
     \<Rightarrow> bool \<times> plot_object" where
  "use_cached_stats hashf section other_criteria p =
     (case map_of (cache_hits p) section of
        None \<Rightarrow> (True, p)
      | Some (hits, calls) \<Rightarrow>
          (let p1 = p\<lparr>cache_hits := dict_set (cache_hits p) section (hits, calls + 1)\<rparr>;
               range_hash = hashf (offset (the_file p), height (the_file p), other_criteria)
           in if map_of (hashes p1) section = Some range_hash
              then (True, p1\<lparr>cache_hits := dict_set (cache_hits p1) section (hits + 1, calls + 1)\<rparr>)
              else (False, p1\<lparr>hashes := dict_set (hashes p1) section range_hash\<rparr>)))"

text \<open>The misses of a section: total calls minus hits.\<close>

definition misses :: "plot_object \<Rightarrow> string \<Rightarrow> int" where
  "misses p section =
     (case map_of (cache_hits p) section of
        None \<Rightarrow> 0
      | Some (hits, calls) \<Rightarrow> int calls - int hits)"

text \<open>
  Every hashed section has the same shape:
  \<^verbatim>\<open>if <guard on the file> or self.use_cached_stats(section, criteria): return\<close>, then a
  \<^verbatim>\<open>try\<close> block that computes values from the file and writes cells with \<^verbatim>\<open>set_stat\<close>,
  its exceptions logged. \<open>skip\<close> is the guard, \<open>body\<close> what the block makes of the table.
\<close>

definition cached_section ::
  "(int \<times> int \<times> criterion list \<Rightarrow> int) \<Rightarrow> bool \<Rightarrow> string \<Rightarrow> criterion list
     \<Rightarrow> (capture_file \<Rightarrow> (string \<Rightarrow> stat) \<Rightarrow> (string \<Rightarrow> stat)) \<Rightarrow> plot_object \<Rightarrow> plot_object" where
  "cached_section hashf skip section criteria body p =
     (if skip then p
      else case use_cached_stats hashf section criteria p of
             (True, p') \<Rightarrow> p'
           | (False, p') \<Rightarrow> p'\<lparr>stats := body (the_file p') (stats p')\<rparr>)"

text \<open>
  The configuration the sections read, the guards (\<^verbatim>\<open>alias_present("Elapsed Time")\<close>,
  \<^verbatim>\<open>tainted_frametimes()\<close>) and the seven blocks.
\<close>

record stats_env =
  time_scale :: rat
  precision :: rat
  exclusive_percentiles :: bool
  has_elapsed_time :: "capture_file \<Rightarrow> bool"
  tainted_frametimes :: "capture_file \<Rightarrow> bool"
  capture_cells :: "capture_file \<Rightarrow> (string \<times> stat) list"
  time_body :: "capture_file \<Rightarrow> (string \<Rightarrow> stat) \<Rightarrow> (string \<Rightarrow> stat)"
  display_body :: "capture_file \<Rightarrow> (string \<Rightarrow> stat) \<Rightarrow> (string \<Rightarrow> stat)"
  performance_body :: "capture_file \<Rightarrow> (string \<Rightarrow> stat) \<Rightarrow> (string \<Rightarrow> stat)"
  percentile_body :: "capture_file \<Rightarrow> (string \<Rightarrow> stat) \<Rightarrow> (string \<Rightarrow> stat)"
  relative_percentile_body :: "capture_file \<Rightarrow> (string \<Rightarrow> stat) \<Rightarrow> (string \<Rightarrow> stat)"
  stutter_body :: "capture_file \<Rightarrow> (string \<Rightarrow> stat) \<Rightarrow> (string \<Rightarrow> stat)"
  hardware_body :: "capture_file \<Rightarrow> (string \<Rightarrow> stat) \<Rightarrow> (string \<Rightarrow> stat)"

type_synonym hashfn = "int \<times> int \<times> criterion list \<Rightarrow> int"

text \<open>\<^verbatim>\<open>set_capture_metrics\<close> is not hashed: it writes its cells at every call.\<close>

definition set_capture_metrics :: "stats_env \<Rightarrow> plot_object \<Rightarrow> plot_object" where
  "set_capture_metrics env p =
     p\<lparr>stats := fold (\<lambda>(h, v) s. s(h := v)) (capture_cells env (the_file p)) (stats p)\<rparr>"

definition set_time_metrics :: "hashfn \<Rightarrow> stats_env \<Rightarrow> plot_object \<Rightarrow> plot_object" where
  "set_time_metrics hashf env p =
     cached_section hashf (\<not> has_elapsed_time env (the_file p)) ''Time'' [CNum (time_scale env)]
       (time_body env) p"

definition set_display_metrics :: "hashfn \<Rightarrow> stats_env \<Rightarrow> plot_object \<Rightarrow> plot_object" where
  "set_display_metrics hashf env p =
     cached_section hashf False ''Display'' [CNum (precision env)] (display_body env) p"

definition set_performance_metrics :: "hashfn \<Rightarrow> stats_env \<Rightarrow> plot_object \<Rightarrow> plot_object" where
  "set_performance_metrics hashf env p =
     cached_section hashf (tainted_frametimes env (the_file p)) ''Performance'' [CNone]
       (performance_body env) p"

definition set_percentile_metrics :: "hashfn \<Rightarrow> stats_env \<Rightarrow> plot_object \<Rightarrow> plot_object" where
  "set_percentile_metrics hashf env p =
     cached_section hashf (tainted_frametimes env (the_file p)) ''Percentiles''
       [CBool (exclusive_percentiles env)] (percentile_body env) p"

definition set_relative_percentile_metrics ::
  "hashfn \<Rightarrow> stats_env \<Rightarrow> plot_object \<Rightarrow> plot_object" where
  "set_relative_percentile_metrics hashf env p =
     cached_section hashf (tainted_frametimes env (the_file p)) ''Relative Percentiles''
       [CNum (precision env)] (relative_percentile_body env) p"

definition set_stutter_metrics :: "hashfn \<Rightarrow> stats_env \<Rightarrow> plot_object \<Rightarrow> plot_object" where
  "set_stutter_metrics hashf env p =
     cached_section hashf False ''Stutter'' [CNum (precision env)] (stutter_body env) p"

definition set_hardware_metrics :: "hashfn \<Rightarrow> stats_env \<Rightarrow> plot_object \<Rightarrow> plot_object" where
  "set_hardware_metrics hashf env p =
     cached_section hashf False ''Hardware'' [CNone] (hardware_body env) p"

definition calculate_stats :: "hashfn \<Rightarrow> stats_env \<Rightarrow> plot_object \<Rightarrow> plot_object" where
  "calculate_stats hashf env p =
     set_hardware_metrics hashf env
       (set_stutter_metrics hashf env
         (set_relative_percentile_metrics hashf env
           (set_percentile_metrics hashf env
             (set_performance_metrics hashf env
               (set_display_metrics hashf env
                 (set_time_metrics hashf env
                   (set_capture_metrics env p)))))))"

text \<open>
  The seven hashed sections: name, criteria, guard and method, in the order
  \<^verbatim>\<open>calculate_stats\<close> calls them.
\<close>

definition section_methods ::
  "hashfn \<Rightarrow> stats_env
     \<Rightarrow> (string \<times> criterion list \<times> (capture_file \<Rightarrow> bool) \<times> (plot_object \<Rightarrow> plot_object)) list" where
  "section_methods hashf env =
     [(''Time'', [CNum (time_scale env)], \<lambda>f. \<not> has_elapsed_time env f, set_time_metrics hashf env),
      (''Display'', [CNum (precision env)], \<lambda>f. False, set_display_metrics hashf env),
      (''Performance'', [CNone], tainted_frametimes env, set_performance_metrics hashf env),
      (''Percentiles'', [CBool (exclusive_percentiles env)], tainted_frametimes env,
         set_percentile_metrics hashf env),
      (''Relative Percentiles'', [CNum (precision env)], tainted_frametimes env,
         set_relative_percentile_metrics hashf env),
      (''Stutter'', [CNum (precision env)], \<lambda>f. False, set_stutter_metrics hashf env),
      (''Hardware'', [CNone], \<lambda>f. False, set_hardware_metrics hashf env)]"

text \<open>A plot object as \<^verbatim>\<open>full_object_setup\<close> leaves it, and an environment, for evaluation.\<close>

definition example_plot :: plot_object where
  "example_plot =
     \<lparr>the_file = example_file, stats = (\<lambda>h. NA),
      hashes = map (\<lambda>s. (s, 0)) sections,
      cache_hits = map (\<lambda>s. (s, 0, 0)) sections\<rparr>"

definition example_hash :: hashfn where
  "example_hash = (\<lambda>(off, h, cs). 1 + 1000 * off + h)"

definition example_env :: stats_env where
  "example_env =
     \<lparr>time_scale = 1, precision = 2, exclusive_percentiles = False,
      has_elapsed_time = (\<lambda>f. True), tainted_frametimes = (\<lambda>f. False),
      capture_cells = (\<lambda>f. [(''Application'', StatStr ''Unknown'')]),
      time_body = (\<lambda>f s. s(''Duration (s)'' := StatNum 2)),
      display_body = (\<lambda>f s. s(''Number of Frames'' := StatStr ''3'')),
      performance_body = (\<lambda>f s. s),
      percentile_body = (\<lambda>f s. s),
      relative_percentile_body = (\<lambda>f s. s),
      stutter_body = (\<lambda>f s. s(''Number of Stutter Events'' := StatStr ''0'')),
      hardware_body = (\<lambda>f s. s)\<rparr>"

subsection \<open>Stutter and oscillation heuristics (\<^verbatim>\<open>CaptureFile.stutter_heuristic\<close>)\<close>

text \<open>The settings the heuristics read, with the defaults of \<^verbatim>\<open>core/configuration.py\<close>.\<close>

record heuristic_config =
  TestForOscillation :: bool
  StutterWindowSize :: int
  StutterDeltaMs :: rat
  StutterDeltaPct :: rat
  OscDeltaMs :: rat
  OscDeltaPct :: rat
  OscWarnPct :: rat

definition default_config :: heuristic_config where
  "default_config =
     \<lparr>TestForOscillation = True, StutterWindowSize = 19, StutterDeltaMs = 4,
      StutterDeltaPct = 20, OscDeltaMs = 4, OscDeltaPct = 20, OscWarnPct = 3\<rparr>"

text \<open>
  The guard \<^verbatim>\<open>min(frametimes) == 0 or any(isinf(frametimes))\<close>. The minimum of a series
  skips not-a-number entries.
\<close>

definition min_is_zero :: "np_float list \<Rightarrow> bool" where
  "min_is_zero xs =
     (Fin 0 \<in> set xs
      \<and> list_all (\<lambda>v. case v of Fin x \<Rightarrow> 0 \<le> x | NegInf \<Rightarrow> False | _ \<Rightarrow> True) xs)"

definition any_isinf :: "np_float list \<Rightarrow> bool" where
  "any_isinf xs = (PosInf \<in> set xs \<or> NegInf \<in> set xs)"

text \<open>
  \<^verbatim>\<open>Series.rolling(window_size, min_periods=window_size, center=True)\<close>. The window of
  row \<open>i\<close> is the rows from \<open>i + 1 + offset - window_size\<close> up to \<open>i + offset\<close>, with
  \<open>offset = (window_size - 1) div 2\<close>, cut at the ends of the series; with 19 rows that is
  \<open>i - 9, \<dots>, i + 9\<close>. A statistic of a window is not-a-number unless the window holds
  \<open>window_size\<close> numbers. (Infinite entries do not reach the windows: the guard has
  returned before.)
\<close>

definition window :: "int \<Rightarrow> 'a list \<Rightarrow> int \<Rightarrow> 'a list" where
  "window window_size xs i =
     (let off = (window_size - 1) div 2;
          stop = i + 1 + off;
          start = stop - window_size;
          n = int (length xs);
          stop' = max 0 (min n stop);
          start' = max 0 (min n start)
      in take (nat (stop' - start')) (drop (nat start') xs))"

fun the_fin :: "np_float \<Rightarrow> rat option" where
  "the_fin (Fin x) = Some x"
| "the_fin _ = None"

definition observations :: "np_float list \<Rightarrow> rat list" where
  "observations win = List.map_filter the_fin win"

definition rolling :: "int \<Rightarrow> np_float list \<Rightarrow> rat list option list" where
  "rolling window_size xs =
     map (\<lambda>i. let obs = observations (window window_size xs (int i))
               in if int (length obs) \<ge> window_size then Some obs else None)
         [0..<length xs]"

text \<open>
  \<^verbatim>\<open>.median()\<close> and \<^verbatim>\<open>.quantile(q)\<close> of the rolling windows; the quantile interpolates
  linearly between the two order statistics around position \<open>q (n - 1)\<close>.
\<close>

definition np_quantile :: "rat \<Rightarrow> rat list \<Rightarrow> np_float" where
  "np_quantile q xs =
     (let s = sort xs;
          pos = q * (of_nat (length xs) - 1);
          lo = nat \<lfloor>pos\<rfloor>;
          frac = pos - of_int \<lfloor>pos\<rfloor>
      in if xs = [] then NaN
         else if frac = 0 then Fin (s ! lo)
         else Fin (s ! lo + frac * (s ! (lo + 1) - s ! lo)))"

definition rolling_median :: "rat list option list \<Rightarrow> np_float list" where
  "rolling_median r = map (\<lambda>w. case w of None \<Rightarrow> NaN | Some obs \<Rightarrow> np_median obs) r"

definition rolling_quantile :: "rat \<Rightarrow> rat list option list \<Rightarrow> np_float list" where
  "rolling_quantile q r = map (\<lambda>w. case w of None \<Rightarrow> NaN | Some obs \<Rightarrow> np_quantile q obs) r"

text \<open>
  Float arithmetic on the values that occur: finite numbers and not-a-number, and the
  infinity or not-a-number of a division by zero.
\<close>

fun fsub :: "np_float \<Rightarrow> np_float \<Rightarrow> np_float" where
  "fsub (Fin a) (Fin b) = Fin (a - b)"
| "fsub PosInf (Fin b) = PosInf"
| "fsub NegInf (Fin b) = NegInf"
| "fsub (Fin a) PosInf = NegInf"
| "fsub (Fin a) NegInf = PosInf"
| "fsub PosInf NegInf = PosInf"
| "fsub NegInf PosInf = NegInf"
| "fsub _ _ = NaN"

fun fabs :: "np_float \<Rightarrow> np_float" where
  "fabs (Fin a) = Fin \<bar>a\<bar>"
| "fabs NaN = NaN"
| "fabs _ = PosInf"

fun fdiv :: "np_float \<Rightarrow> np_float \<Rightarrow> np_float" where
  "fdiv (Fin a) (Fin b) =
     (if b = 0 then (if a > 0 then PosInf else if a < 0 then NegInf else NaN)
      else Fin (a / b))"
| "fdiv (Fin a) PosInf = Fin 0"
| "fdiv (Fin a) NegInf = Fin 0"
| "fdiv PosInf (Fin b) = (if b < 0 then NegInf else PosInf)"
| "fdiv NegInf (Fin b) = (if b < 0 then PosInf else NegInf)"
| "fdiv _ _ = NaN"

fun fgt :: "np_float \<Rightarrow> rat \<Rightarrow> bool" where
  "fgt (Fin a) t = (a > t)"
| "fgt PosInf t = True"
| "fgt _ t = False"

fun fge :: "np_float \<Rightarrow> rat \<Rightarrow> bool" where
  "fge (Fin a) t = (a \<ge> t)"
| "fge PosInf t = True"
| "fge _ t = False"

text \<open>\<^verbatim>\<open>numpy.average\<close> and \<^verbatim>\<open>numpy.max\<close> of a non-empty array.\<close>

definition np_average :: "np_float list \<Rightarrow> np_float" where
  "np_average xs =
     (if NaN \<in> set xs \<or> (PosInf \<in> set xs \<and> NegInf \<in> set xs) then NaN
      else if PosInf \<in> set xs then PosInf
      else if NegInf \<in> set xs then NegInf
      else Fin (np_mean (observations xs)))"

definition np_amax :: "np_float list \<Rightarrow> np_float" where
  "np_amax xs =
     (if NaN \<in> set xs then NaN
      else if PosInf \<in> set xs then PosInf
      else if observations xs = [] then NegInf
      else Fin (np_max (observations xs)))"

text \<open>
  The result tuple. \<^verbatim>\<open>deviations\<close>, \<^verbatim>\<open>average\<close> and \<^verbatim>\<open>max\<close> hold the string \<^verbatim>\<open>"OSC"\<close> when
  the oscillation heuristic has cut the computation short.
\<close>

datatype 'a or_osc = Value 'a | OSC

record stutter =
  deviations :: "np_float list or_osc"
  total :: nat
  proportional :: rat
  average :: "np_float or_osc"
  maximum :: "np_float or_osc"

definition invalid_stutter :: "nat \<Rightarrow> stutter" where
  "invalid_stutter num_all_frames =
     \<lparr>deviations = Value (replicate num_all_frames (Fin 0)), total = 0, proportional = 0,
      average = Value (Fin 0), maximum = Value (Fin 0)\<rparr>"

text \<open>
  \<^verbatim>\<open>oscillation_heuristic\<close>. All three settings are divided by 100, the millisecond
  threshold \<^verbatim>\<open>OscDeltaMs\<close> too.
\<close>

definition osc_frames :: "heuristic_config \<Rightarrow> rat list option list \<Rightarrow> bool list" where
  "osc_frames cfg rolling_frames =
     (let delta_ms = OscDeltaMs cfg / 100;
          delta_pct = OscDeltaPct cfg / 100;
          rolling_q1 = rolling_quantile (1/4) rolling_frames;
          rolling_q3 = rolling_quantile (3/4) rolling_frames
      in map (\<lambda>(q1, q3). fge (fsub (fdiv q3 q1) (Fin 1)) delta_pct \<and> fge (fsub q3 q1) delta_ms)
             (zip rolling_q1 rolling_q3))"

definition oscillation_heuristic ::
  "heuristic_config \<Rightarrow> rat list option list \<Rightarrow> nat \<Rightarrow> stutter option" where
  "oscillation_heuristic cfg rolling_frames num_frames =
     (if num_frames = 0 then None
      else
        let warn_pct = OscWarnPct cfg / 100;
            num_osc_frames = length (filter id (osc_frames cfg rolling_frames));
            pct_osc_frames = of_nat num_osc_frames / of_nat num_frames
        in if pct_osc_frames < warn_pct then None
           else Some \<lparr>deviations = OSC, total = num_osc_frames, proportional = pct_osc_frames,
                      average = OSC, maximum = OSC\<rparr>)"

text \<open>The arrays of \<^verbatim>\<open>stutter_heuristic\<close>.\<close>

definition frame_time_deviations :: "np_float list \<Rightarrow> np_float list \<Rightarrow> np_float list" where
  "frame_time_deviations frametimes medians =
     map (\<lambda>(x, m). fabs (fsub x m)) (zip frametimes medians)"

definition percent_deviations :: "np_float list \<Rightarrow> np_float list \<Rightarrow> np_float list" where
  "percent_deviations frametimes medians =
     map (\<lambda>(d, m). fdiv d m) (zip (frame_time_deviations frametimes medians) medians)"

definition stutter_frames :: "heuristic_config \<Rightarrow> np_float list \<Rightarrow> bool list" where
  "stutter_frames cfg frametimes =
     (let delta_ms = StutterDeltaMs cfg;
          delta_pct = StutterDeltaPct cfg / 100;
          medians = rolling_median (rolling (StutterWindowSize cfg) frametimes);
          percent_delta = map (\<lambda>p. fgt p delta_pct) (percent_deviations frametimes medians);
          ms_delta = map (\<lambda>d. fgt d delta_ms) (frame_time_deviations frametimes medians)
      in map (\<lambda>(p, m). p \<and> m) (zip percent_delta ms_delta))"

definition stutter_deltas :: "heuristic_config \<Rightarrow> np_float list \<Rightarrow> np_float list" where
  "stutter_deltas cfg frametimes =
     map fst (filter snd
       (zip (percent_deviations frametimes
               (rolling_median (rolling (StutterWindowSize cfg) frametimes)))
            (stutter_frames cfg frametimes)))"

text \<open>
  \<^verbatim>\<open>stutter_heuristic\<close>. A negative window size makes \<^verbatim>\<open>rolling\<close> raise, and the handler
  returns the invalid result.
\<close>

definition stutter_heuristic :: "heuristic_config \<Rightarrow> np_float list \<Rightarrow> stutter" where
  "stutter_heuristic cfg frametimes =
     (let num_all_frames = length frametimes in
      if min_is_zero frametimes \<or> any_isinf frametimes then invalid_stutter num_all_frames
      else if StutterWindowSize cfg < 0 then invalid_stutter num_all_frames
      else
        let rolling_frametimes = rolling (StutterWindowSize cfg) frametimes;
            oscillation = (if TestForOscillation cfg
                           then oscillation_heuristic cfg rolling_frametimes num_all_frames
                           else None)
        in case oscillation of
             Some osc \<Rightarrow> osc
           | None \<Rightarrow>
               (let num_stutter_frames = length (filter id (stutter_frames cfg frametimes)) in
                \<lparr>deviations = Value (percent_deviations frametimes (rolling_median rolling_frametimes)),
                 total = num_stutter_frames,
                 proportional = (if num_stutter_frames > 0
                                 then of_nat num_stutter_frames / of_nat num_all_frames else 0),
                 average = Value (if num_stutter_frames > 0
                                  then np_average (stutter_deltas cfg frametimes) else Fin 0),
                 maximum = Value (if num_stutter_frames > 0
                                  then np_amax (stutter_deltas cfg frametimes) else Fin 0)\<rparr>))"

text \<open>
  The claim's own words, for comparison: frame \<open>i\<close> has a complete centered window, and
  its absolute deviation from the window's median exceeds the absolute threshold and,
  divided by the median, the relative threshold.
\<close>

definition centered_window :: "int \<Rightarrow> rat list \<Rightarrow> nat \<Rightarrow> rat list option" where
  "centered_window w xs i =
     (let lead = nat (w - 1 - (w - 1) div 2); trail = nat ((w - 1) div 2) in
      if lead \<le> i \<and> i + trail < length xs
      then Some (take (nat w) (drop (i - lead) xs)) else None)"

definition exceeds_both :: "heuristic_config \<Rightarrow> rat list \<Rightarrow> nat \<Rightarrow> bool" where
  "exceeds_both cfg xs i =
     (case centered_window (StutterWindowSize cfg) xs i of
        None \<Rightarrow> False
      | Some win \<Rightarrow>
          (case np_median win of
             Fin m \<Rightarrow> \<bar>xs ! i - m\<bar> > StutterDeltaMs cfg
                      \<and> \<bar>xs ! i - m\<bar> / m > StutterDeltaPct cfg / 100
           | _ \<Rightarrow> False))"

definition relative_deviation :: "heuristic_config \<Rightarrow> rat list \<Rightarrow> nat \<Rightarrow> rat" where
  "relative_deviation cfg xs i =
     (case centered_window (StutterWindowSize cfg) xs i of
        None \<Rightarrow> 0
      | Some win \<Rightarrow> (case np_median win of Fin m \<Rightarrow> \<bar>xs ! i - m\<bar> / m | _ \<Rightarrow> 0))"


definition alternating :: "rat list" where
  "alternating = [4, 5, 4, 5, 4, 5, 4, 5, 4, 5, 4, 5, 4, 5, 4, 5, 4, 5, 4]"



section \<open>Properties\<close>

subsection \<open>File hash\<close>

lemma concat_read_blocks: "0 < n \<Longrightarrow> concat (read_blocks n content) = content"
proof (induction n content rule: read_blocks.induct)
  case (1 n content)
  show ?case
  proof (cases "length (take n content) > 0")
    case True
    then have "concat (read_blocks n content) = take n content @ concat (read_blocks n (drop n content))"
      by (subst read_blocks.simps) simp
    with 1 True show ?thesis by simp
  next
    case False
    with \<open>0 < n\<close> have "content = []" by (cases content) auto
    then show ?thesis by (subst read_blocks.simps) simp
  qed
qed

lemma absorbed_update_all: "absorbed (update_all h blocks) = absorbed h @ concat blocks"
  by (induction blocks arbitrary: h) (simp_all add: hash_update_def)

text \<open>
  C10. The digest of a file streamed in blocks of 65,536 bytes is the SHA3-256 digest of
  the file's whole content, and for any sequence of blocks the digest depends only on
  their concatenation, not on where the blocks are cut.
\<close>

theorem file_hash_is_digest_of_content:
  "calculate_file_hash sha (iterable_file_blocks content) = sha content
   \<and> calculate_file_hash sha blocks = sha (concat blocks)"
  by (simp add: calculate_file_hash_def hexdigest_def absorbed_update_all new_hash_def
      iterable_file_blocks_def HASH_BLOCK_SIZE_def concat_read_blocks)

subsection \<open>Column downcasting\<close>














text \<open>
  The signed tiers are chosen with \<^verbatim>\<open>or\<close> between the two bounds: one bound inside the
  tier is enough, so a tier can be selected that does not hold the other bound.
\<close>

lemma return_optimal_dtype_signed_or:
  "return_optimal_dtype (NumericCol [-1000, 5]) = Inr (Some Int8) \<and> \<not> covers Int8 (-1000)"
  by (simp add: return_optimal_dtype_def np_min_def np_max_def astype_int_def covers_def)

subsection \<open>Format detection\<close>



lemma score_nonneg: "0 \<le> score hs ms"
  by (simp add: score_def)




subsection \<open>Polling rate\<close>

text \<open>
  C7. When the consecutive deltas of the timestamps hold no positive value,
  \<^verbatim>\<open>infer_polling_rate\<close> returns 1.0 and leaves an integrity that is not \<^verbatim>\<open>Ideal\<close>: a
  valid integrity is then \<^verbatim>\<open>Dirty\<close> or worse, an \<^verbatim>\<open>Ideal\<close> file has become \<^verbatim>\<open>Dirty\<close>, and
  any other file is unchanged.
\<close>

theorem infer_polling_rate_fallback:
  assumes "to_datetime = Inr datetimes"
    and "\<forall>d \<in> set (time_deltas as_float datetimes). \<not> d > 0"
  shows "fst (infer_polling_rate as_float f to_datetime) = Fin 1
     \<and> integrity (snd (infer_polling_rate as_float f to_datetime)) \<noteq> Ideal
     \<and> (valid (integrity (snd (infer_polling_rate as_float f to_datetime)))
          \<longrightarrow> integrity_id Dirty \<le> integrity_id (integrity (snd (infer_polling_rate as_float f to_datetime))))
     \<and> (integrity f = Ideal \<longrightarrow> integrity (snd (infer_polling_rate as_float f to_datetime)) = Dirty)
     \<and> (integrity f \<noteq> Ideal \<longrightarrow> snd (infer_polling_rate as_float f to_datetime) = f)"
proof -
  from assms(2) have "filter (\<lambda>d. d > 0) (time_deltas as_float datetimes) = []"
    by (simp add: filter_empty_conv)
  then have r: "infer_polling_rate as_float f to_datetime
      = (Fin 1, if integrity f = Ideal then f\<lparr>integrity := Dirty\<rparr> else f)"
    by (simp add: infer_polling_rate_def positive_time_deltas_def assms(1))
  show ?thesis
    unfolding r by (cases "integrity f") (simp_all add: valid_def)
qed

theorem infer_polling_rate_fallback_witness:
  "list_all (\<lambda>d. \<not> d > 0) (time_deltas rat_of_int [5, 5, 3])
   \<and> fst (infer_polling_rate rat_of_int example_file (Inr [5, 5, 3])) = Fin 1
   \<and> integrity (snd (infer_polling_rate rat_of_int example_file (Inr [5, 5, 3]))) = Dirty"
proof -
  have h: "\<forall>d \<in> set (time_deltas rat_of_int [5, 5, 3]). \<not> d > 0"
    by (simp add: time_deltas_def)
  have i: "integrity example_file = Ideal" by (simp add: example_file_def)
  show ?thesis
    using infer_polling_rate_fallback[OF refl h, of example_file] i h
    by (simp add: list_all_iff)
qed

subsection \<open>Integrity by inspection\<close>

lemma passed_of_Inr:
  "list_all (\<lambda>name. case map_of insp name of Some (Item i) \<Rightarrow> True | _ \<Rightarrow> False) names \<Longrightarrow>
   \<exists>ps. passed_of insp names = Inr ps
      \<and> (False \<in> set ps \<longleftrightarrow> (\<exists>name \<in> set names. \<exists>i. map_of insp name = Some (Item i) \<and> \<not> passed i))"
proof (induction names)
  case Nil
  then show ?case by simp
next
  case (Cons name names)
  then obtain ps where ps: "passed_of insp names = Inr ps"
    "False \<in> set ps \<longleftrightarrow> (\<exists>name \<in> set names. \<exists>i. map_of insp name = Some (Item i) \<and> \<not> passed i)"
    by auto
  from Cons.prems obtain i where i: "map_of insp name = Some (Item i)"
    by (auto split: option.splits inspection_value.splits)
  show ?case
    using ps i by auto
qed

lemma passed_inspection_all: "passed_inspection f = all_passed (inspection f)"
  by (auto simp: passed_inspection_def all_passed_def list_all_iff split: inspection_value.splits)

text \<open>
  C2. When the update runs (integrity \<^verbatim>\<open>Pending\<close>, or a recheck, as after every inspection)
  and the major checks of the file's format and version are items of the report, the
  integrity becomes \<^verbatim>\<open>Ideal\<close> if every item passed, \<^verbatim>\<open>Dirty\<close> if some item failed but every
  major item passed, and \<^verbatim>\<open>Mangled\<close> if a major item failed. The reports and the lists of
  FrameView and OCAT meet the precondition (\<open>frameview_majors_inspected\<close>,
  \<open>ocat_majors_inspected\<close>, below).
\<close>

theorem integrity_by_inspection:
  assumes "integrity f = Pending \<or> recheck"
    and "majors_inspected M (version f) (inspection f)"
  shows "integrity (update_integrity_by_inspection M recheck f) =
     (if all_passed (inspection f) then Ideal
      else if majors_passed M (version f) (inspection f) then Dirty
      else Mangled)"
proof (cases "all_passed (inspection f)")
  case True
  with assms(1) show ?thesis
    by (simp add: update_integrity_by_inspection_def passed_inspection_all)
next
  case False
  from assms(2) obtain names where names: "map_of M (version f) = Some names"
    and l: "list_all (\<lambda>name. case map_of (inspection f) name of Some (Item i) \<Rightarrow> True | _ \<Rightarrow> False) names"
    by (auto simp: majors_inspected_def split: option.splits)
  from passed_of_Inr[OF l] obtain ps where ps: "passed_of (inspection f) names = Inr ps"
    "False \<in> set ps \<longleftrightarrow> (\<exists>name \<in> set names. \<exists>i. map_of (inspection f) name = Some (Item i) \<and> \<not> passed i)"
    by auto
  have mp: "majors_passed M (version f) (inspection f) \<longleftrightarrow> False \<notin> set ps"
    unfolding ps(2) majors_passed_def names by auto
  show ?thesis
    using False assms(1) ps(1) mp
    by (simp add: update_integrity_by_inspection_def passed_inspection_all major_items_def names)
qed

lemma map_of_report: "map_of (report keys items) k = (if k \<in> set keys then Some (Item (items k)) else None)"
  by (induction keys) (auto simp: report_def)

lemma frameview_majors_inspected:
  "ver \<in> {''1.0'', ''1.1'', ''1.2'', ''1.4''} \<Longrightarrow>
   majors_inspected frameview_major ver (frameview_report ver basic versioned)"
  apply (auto simp: majors_inspected_def frameview_major_def frameview_report_def SECOND_GENERATION_def
      frameview_major_10_def frameview_major_11_def dict_or_def map_of_report presentmon_keys_def
      second_gen_inspection_def second_gen_keys_def report_def)
  done

lemma ocat_majors_inspected:
  "majors_inspected ocat_major ''1.6.1'' (ocat_report basic versioned)"
  by (simp add: majors_inspected_def ocat_major_def ocat_report_def dict_or_def
      presentmon_keys_def ocat_inspection_def ocat_keys_def report_def)

theorem integrity_by_inspection_witness:
  "majors_inspected frameview_major (version fv_file) (inspection fv_file)
   \<and> \<not> all_passed (inspection fv_file)
   \<and> majors_passed frameview_major (version fv_file) (inspection fv_file)
   \<and> integrity (update_integrity_by_inspection frameview_major True fv_file) = Dirty"
proof -
  have v: "version fv_file = ''1.0''"
    and i: "inspection fv_file = frameview_report ''1.0''
        (\<lambda>k. \<lparr>passed = (k \<noteq> ''Tearing is Possible''), violations = 0, description = []\<rparr>)
        (\<lambda>k. default_result)"
    by (simp_all add: fv_file_def)
  have m: "majors_inspected frameview_major (version fv_file) (inspection fv_file)"
    unfolding v i by (rule frameview_majors_inspected) simp
  have r: "inspection fv_file = report presentmon_keys
        (\<lambda>k. \<lparr>passed = (k \<noteq> ''Tearing is Possible''), violations = 0, description = []\<rparr>)"
    unfolding i by (simp add: frameview_report_def SECOND_GENERATION_def)
  have a: "\<not> all_passed (inspection fv_file)"
    unfolding r all_passed_def report_def presentmon_keys_def
    by (simp add: exI[of _ "''Tearing is Possible''"])
  have mp: "majors_passed frameview_major (version fv_file) (inspection fv_file)"
    unfolding r v majors_passed_def
    by (auto simp: frameview_major_def frameview_major_10_def map_of_report)
  from integrity_by_inspection[of fv_file True frameview_major, OF _ m] a mp m
  show ?thesis by simp
qed

subsection \<open>Columns by alias\<close>







subsection \<open>Invalid is not absorbing\<close>

text \<open>
  C4 asks that, once a structural parse failure has set \<^verbatim>\<open>Invalid\<close>, nothing in the same
  parse attempt assigns another integrity. On a FrameView 1.0 capture without a
  \<^verbatim>\<open>Dropped\<close> column \<^verbatim>\<open>read_log\<close> sets \<^verbatim>\<open>Invalid\<close> and \<^verbatim>\<open>parse_file\<close> returns; the
  constructor then calls \<^verbatim>\<open>evaluate_integrity\<close>, whose \<^verbatim>\<open>recheck=True\<close> passes the guard of
  \<^verbatim>\<open>update_integrity_by_inspection\<close>, and the file ends \<^verbatim>\<open>Mangled\<close>.
\<close>

theorem invalid_parse_becomes_mangled:
  "integrity (fst (parse_file Inr (no_dropped_file\<lparr>integrity := Pending, integrity_hash := -1\<rparr>)
                    no_dropped_io)) = Invalid
   \<and> integrity (presentmon_init hashf headerless_inspect_capture Inr frameview_major Inr
                   no_dropped_file no_dropped_io) = Mangled"
proof -
  have p: "parse_file Inr (no_dropped_file\<lparr>integrity := Pending, integrity_hash := -1\<rparr>) no_dropped_io
      = (no_dropped_file\<lparr>integrity := Invalid, integrity_hash := -1\<rparr>,
         [(''Application'', [Str ''game.exe'', Str ''game.exe'']),
          (''TimeInSeconds'', [Num 0, Num (1/60)]),
          (''MsBetweenPresents'', [Num 16, Num 17])], [], 0)"
    by (simp add: parse_file_def read_log_def no_dropped_io_def dropped_has_error_def
        columns_named_def no_dropped_file_def)
  have h: "py_hash hashf (0::int, 0::int) \<noteq> -1"
    by (simp add: py_hash_def)
  have r: "frameview_report ''1.0'' headerless_items (\<lambda>k. default_result)
      = report presentmon_keys headerless_items"
    by (simp add: frameview_report_def SECOND_GENERATION_def)
  have np: "\<not> list_all (\<lambda>(k, v). case v of Item i \<Rightarrow> passed i | Text s \<Rightarrow> True)
              (report presentmon_keys headerless_items)"
    by (simp add: report_def presentmon_keys_def headerless_items_def)
  have po: "passed_of (report presentmon_keys headerless_items) frameview_major_10
      = Inr [False, False, False, False, False, False]"
    by (simp add: frameview_major_10_def map_of_report presentmon_keys_def headerless_items_def
        default_result_def)
  have m: "map_of frameview_major ''1.0'' = Some frameview_major_10"
    by (simp add: frameview_major_def)
  have "presentmon_init hashf headerless_inspect_capture Inr frameview_major Inr
          no_dropped_file no_dropped_io
        = evaluate_integrity hashf headerless_inspect_capture Inr frameview_major
           (no_dropped_file\<lparr>integrity := Invalid, integrity_hash := -1,
              data := [(''Application'', [Str ''game.exe'', Str ''game.exe'']),
                       (''TimeInSeconds'', [Num 0, Num (1/60)]),
                       (''MsBetweenPresents'', [Num 16, Num 17])],
              headers := [], height := 0\<rparr>)"
    by (simp add: presentmon_init_def Let_def p)
  also have "\<dots> = update_integrity_by_inspection frameview_major True
           (no_dropped_file\<lparr>integrity := Invalid, integrity_hash := py_hash hashf (0, 0),
              data := [(''Application'', [Str ''game.exe'', Str ''game.exe'']),
                       (''TimeInSeconds'', [Num 0, Num (1/60)]),
                       (''MsBetweenPresents'', [Num 16, Num 17])],
              headers := [], height := 0,
              inspection := report presentmon_keys headerless_items\<rparr>)"
    using h by (simp add: evaluate_integrity_def Let_def headerless_inspect_capture_def r
        no_dropped_file_def)
  also have "integrity \<dots> = Mangled"
    using np by (simp add: update_integrity_by_inspection_def passed_inspection_def major_items_def
        m po no_dropped_file_def)
  finally show ?thesis by (simp add: p)
qed

subsection \<open>Statistics cache\<close>

lemma map_of_dict_set: "map_of (dict_set d k v) k' = (if k' = k then Some v else map_of d k')"
  by (induction d k v rule: dict_set.induct) auto

lemma use_cached_stats_file: "the_file (snd (use_cached_stats hashf s c p)) = the_file p"
  by (auto simp: use_cached_stats_def Let_def split: option.splits)

lemma use_cached_stats_stats: "stats (snd (use_cached_stats hashf s c p)) = stats p"
  by (auto simp: use_cached_stats_def Let_def split: option.splits)

text \<open>After any call for a section that is counted, the section's stored hash is that of the call's key.\<close>

lemma use_cached_stats_stores:
  "map_of (cache_hits p) s = Some ht \<Longrightarrow>
   map_of (hashes (snd (use_cached_stats hashf s c p))) s
     = Some (hashf (offset (the_file p), height (the_file p), c))"
  by (cases ht) (auto simp: use_cached_stats_def Let_def map_of_dict_set)

lemma use_cached_stats_counted:
  "map_of (cache_hits p) s = Some ht \<Longrightarrow>
   \<exists>ht'. map_of (cache_hits (snd (use_cached_stats hashf s c p))) s = Some ht'"
  by (cases ht) (auto simp: use_cached_stats_def Let_def map_of_dict_set)

text \<open>A call whose key has the stored hash is a hit: it returns \<open>True\<close> and adds one hit and one call.\<close>

lemma use_cached_stats_hit:
  assumes "map_of (hashes p) s = Some (hashf (offset (the_file p), height (the_file p), c))"
  shows "fst (use_cached_stats hashf s c p)
     \<and> misses (snd (use_cached_stats hashf s c p)) s = misses p s
     \<and> stats (snd (use_cached_stats hashf s c p)) = stats p"
  using assms
  by (auto simp: use_cached_stats_def Let_def misses_def map_of_dict_set split: option.splits)

lemma cached_section_skip: "cached_section hashf True s c body p = p"
  by (simp add: cached_section_def)

lemma cached_section_unfold:
  "cached_section hashf False s c body p =
     (if fst (use_cached_stats hashf s c p) then snd (use_cached_stats hashf s c p)
      else (snd (use_cached_stats hashf s c p))\<lparr>stats := body (the_file p) (stats p)\<rparr>)"
  by (cases "use_cached_stats hashf s c p")
     (auto simp: cached_section_def use_cached_stats_def Let_def split: option.splits if_splits)

text \<open>
  A section that went through to \<^verbatim>\<open>use_cached_stats\<close> and is run again on the resulting
  state: the second call is a hit and changes neither the table nor the misses.
\<close>

lemma cached_section_twice:
  "let p1 = cached_section hashf False s c body p;
       p2 = cached_section hashf skip s c body' p1
   in fst (use_cached_stats hashf s c p1)
      \<and> stats p2 = stats p1
      \<and> misses p2 s = misses p1 s"
proof -
  define p1 where "p1 = cached_section hashf False s c body p"
  define p2 where "p2 = cached_section hashf skip s c body' p1"
  have "fst (use_cached_stats hashf s c p1) \<and> stats p2 = stats p1 \<and> misses p2 s = misses p1 s"
  proof (cases "map_of (cache_hits p) s")
  case None
  then have u: "use_cached_stats hashf s c p = (True, p)"
    by (simp add: use_cached_stats_def)
  then have "p1 = p" by (simp add: p1_def cached_section_def)
  with u show ?thesis
    by (cases skip) (simp_all add: p2_def cached_section_def)
next
  case (Some ht)
  define q where "q = snd (use_cached_stats hashf s c p)"
  have fq: "the_file q = the_file p" by (simp add: q_def use_cached_stats_file)
  have hq: "map_of (hashes q) s = Some (hashf (offset (the_file p), height (the_file p), c))"
    unfolding q_def using Some by (rule use_cached_stats_stores)
  have p1: "p1 = q \<or> p1 = q\<lparr>stats := body (the_file p) (stats p)\<rparr>"
    by (simp add: p1_def cached_section_unfold q_def)
  then have h1: "map_of (hashes p1) s = Some (hashf (offset (the_file p1), height (the_file p1), c))"
    using hq fq by auto
  note hit = use_cached_stats_hit[of p1 s hashf c, OF h1]
  show ?thesis
  proof (cases skip)
    case True
    with hit show ?thesis by (simp add: p2_def cached_section_skip)
  next
    case False
    with hit show ?thesis by (simp add: p2_def cached_section_unfold)
  qed
  qed
  then show ?thesis
    unfolding Let_def p1_def p2_def .
qed

text \<open>
  C9. When one of the seven sections has been computed (its guard let it through to
  \<^verbatim>\<open>use_cached_stats\<close>) and is computed again, the file's offset and height and the
  section's criteria being what they were, \<^verbatim>\<open>use_cached_stats\<close> answers \<^verbatim>\<open>True\<close> at the
  second call, the table after the second call is the table after the first, and the
  section's misses have not increased.
\<close>

theorem recomputed_section_is_cached:
  assumes "(s, c, guard, method) \<in> set (section_methods hashf env)"
    and "\<not> guard (the_file p)"
  shows "let p1 = method p; p2 = method p1
         in fst (use_cached_stats hashf s c p1)
            \<and> stats p2 = stats p1
            \<and> misses p2 s = misses p1 s"
proof -
  have "\<exists>body. \<forall>q. method q = cached_section hashf (guard (the_file q)) s c body q"
    using assms(1)
    unfolding section_methods_def set_time_metrics_def set_display_metrics_def
      set_performance_metrics_def set_percentile_metrics_def
      set_relative_percentile_metrics_def set_stutter_metrics_def set_hardware_metrics_def
    by auto
  then obtain body where m: "\<And>q. method q = cached_section hashf (guard (the_file q)) s c body q"
    by blast
  have m1: "method p = cached_section hashf False s c body p"
    using m[of p] assms(2) by simp
  show ?thesis
    using cached_section_twice[of hashf s c body p "guard (the_file (method p))" body]
    unfolding Let_def m1[symmetric] m[of "method p", symmetric] .
qed

theorem recomputed_section_is_cached_witness:
  "(''Stutter'', [CNum 2], (\<lambda>f. False), set_stutter_metrics example_hash example_env)
      \<in> set (section_methods example_hash example_env)
   \<and> fst (use_cached_stats example_hash ''Stutter'' [CNum 2]
            (set_stutter_metrics example_hash example_env example_plot))
   \<and> stats (set_stutter_metrics example_hash example_env
              (set_stutter_metrics example_hash example_env example_plot))
       = stats (set_stutter_metrics example_hash example_env example_plot)
   \<and> misses (set_stutter_metrics example_hash example_env
               (set_stutter_metrics example_hash example_env example_plot)) ''Stutter''
       = misses (set_stutter_metrics example_hash example_env example_plot) ''Stutter''
   \<and> misses (set_stutter_metrics example_hash example_env example_plot) ''Stutter'' = 1"
proof -
  have mem: "(''Stutter'', [CNum 2], (\<lambda>f. False), set_stutter_metrics example_hash example_env)
      \<in> set (section_methods example_hash example_env)"
    by (simp add: section_methods_def example_env_def)
  have one: "misses (set_stutter_metrics example_hash example_env example_plot) ''Stutter'' = 1"
    by (simp add: set_stutter_metrics_def cached_section_def use_cached_stats_def Let_def
        example_plot_def example_hash_def example_env_def example_file_def sections_def misses_def
        map_of_dict_set)
  from recomputed_section_is_cached[OF mem, of example_plot] mem one
  show ?thesis by (simp add: Let_def)
qed

subsection \<open>Stutter and oscillation heuristics\<close>



















text \<open>
  C6 says the windows counted are those whose relative and absolute interquartile ranges
  reach the configured thresholds. The code compares the absolute range with
  \<^verbatim>\<open>OscDeltaMs / 100\<close>: on 19 frames alternating between 4 ms and 5 ms the only complete
  window has quartiles 4 and 5, an absolute range of 1 ms below the configured 4 ms, and
  the result is the oscillation sentinel all the same.
\<close>

theorem oscillation_threshold_scaled:
  "OscDeltaMs default_config = 4
   \<and> np_quantile (1/4) alternating = Fin 4
   \<and> np_quantile (3/4) alternating = Fin 5
   \<and> rolling 19 (map Fin alternating) = replicate 9 None @ [Some alternating] @ replicate 9 None
   \<and> stutter_heuristic default_config (map Fin alternating)
     = \<lparr>deviations = OSC, total = 1, proportional = 1 / 19, average = OSC, maximum = OSC\<rparr>"
  by code_simp

text \<open>
  The two examples of the specification: a deviation of 25% and 2 ms is not flagged, one
  of 25% and 6 ms is.
\<close>

lemma and_gate_examples:
  "filter (exceeds_both default_config (replicate 9 8 @ [10] @ replicate 9 8)) [0..<19] = []
   \<and> relative_deviation default_config (replicate 9 8 @ [10] @ replicate 9 8) 9 = 1 / 4
   \<and> filter (exceeds_both default_config (replicate 9 24 @ [30] @ replicate 9 24)) [0..<19] = [9]
   \<and> relative_deviation default_config (replicate 9 24 @ [30] @ replicate 9 24) 9 = 1 / 4"
  by code_simp

end
